theory Spec2Isabelle
  imports Main "HOL-Library.AList" "HOL-Library.Char_ord" "HOL-Library.List_Lexorder"
begin

section \<open>JavaScript values, plain objects and field lists\<close>

text \<open>
  The wrapper stores documents as plain JavaScript objects. A plain object is an
  association list in insertion order (the order \<open>Object.keys\<close> reports); reading a key
  that is absent yields \<open>undefined\<close>, and an assignment replaces the value in place or
  appends a new key.
\<close>

datatype val = Undefined | Null | Bool bool | Num int | Str string | Obj "(string \<times> val) list"

type_synonym field = string
type_synonym obj = "(field \<times> val) list"
type_synonym query = string

definition getProp :: "obj \<Rightarrow> field \<Rightarrow> val" where
  \<comment> \<open>\<open>obj[key]\<close>\<close>
  "getProp ob key = (case map_of ob key of None \<Rightarrow> Undefined | Some v \<Rightarrow> v)"

definition assign :: "obj \<Rightarrow> field \<Rightarrow> val \<Rightarrow> obj" where
  \<comment> \<open>\<open>obj[key] = v\<close>\<close>
  "assign ob key v = AList.update key v ob"

definition keys :: "obj \<Rightarrow> field list" where
  \<comment> \<open>\<open>Object.keys(obj)\<close>\<close>
  "keys ob = map fst ob"

definition cloneDeep :: "obj \<Rightarrow> obj" where
  \<comment> \<open>\<open>_.cloneDeep\<close>: values are immutable here, so the copy is the value itself\<close>
  "cloneDeep ob = ob"

definition falsy :: "field \<Rightarrow> bool" where
  \<comment> \<open>\<open>!key\<close> for a string key: only the empty string is falsy\<close>
  "falsy key = (key = [])"

definition difference :: "field list \<Rightarrow> field list \<Rightarrow> field list" where
  \<comment> \<open>\<open>_.difference(array, values)\<close>: the elements of \<open>array\<close> not in \<open>values\<close>, in the
      order of \<open>array\<close>\<close>
  "difference array vals = filter (\<lambda>x. x \<notin> set vals) array"

definition sortBy :: "field list option \<Rightarrow> field list" where
  \<comment> \<open>\<open>_.sortBy(collection)\<close>; \<open>_.sortBy(undefined)\<close> is the empty array\<close>
  "sortBy collection = (case collection of None \<Rightarrow> [] | Some fs \<Rightarrow> sort fs)"

section \<open>Load options\<close>

text \<open>
  \<open>OptionalFields<Data>\<close> is a single key or an array of keys;
  \<open>LoadOptions<Data>\<close> is that or an \<open>AdvancedLoadOptions\<close> object with the optional
  members \<open>fields\<close> and \<open>reload\<close>. An omitted argument or member is \<open>None\<close>.
\<close>

datatype optionalFields = Single field | Array "field list"

datatype loadOptions = Plain optionalFields | Advanced "optionalFields option" "bool option"

fun extractFieldsToLoad :: "loadOptions option \<Rightarrow> field list option" where
  "extractFieldsToLoad None = None"
| "extractFieldsToLoad (Some (Plain (Single key))) = (if falsy key then None else Some [key])"
| "extractFieldsToLoad (Some (Plain (Array fs))) = Some fs"
| "extractFieldsToLoad (Some (Advanced None r)) = None"
| "extractFieldsToLoad (Some (Advanced (Some (Single key)) r)) =
     (if falsy key then None else Some [key])"
| "extractFieldsToLoad (Some (Advanced (Some (Array fs)) r)) = Some fs"

fun extractIfReload :: "loadOptions option \<Rightarrow> bool" where
  "extractIfReload None = False"
| "extractIfReload (Some (Plain f)) = False"
| "extractIfReload (Some (Advanced f r)) = (r = Some True)"

section \<open>The wrapper and its environment\<close>

text \<open>
  \<open>loadedFields = None\<close> is the source's \<open>undefined\<close>: the whole document is loaded.
  \<open>data\<close> is the current value of the wrapper's observable, \<open>emitted\<close> the values pushed
  through \<open>data.next\<close> so far. \<open>synchronizer\<close> is a reference into the environment's
  synchronizer instances. The declared members are the fields of the record;
  \<open>ownProps\<close> holds any further ordinary property assigned on the wrapper object under
  a key that is neither a declared member nor a wrapped field.
\<close>

record wrapper =
  uniqueQuery :: query
  allFields :: "field list"
  loadedFields :: "field list option"
  data :: obj
  emitted :: "obj list"
  synchronizer :: "nat option"
  removed :: bool
  ownProps :: obj

datatype error = StorageError | TypeError | Error string

datatype op = FindOne query "field list option" | DeleteOne query

record sync =
  syncedFields :: "field list option"
  closed :: bool

text \<open>
  The environment: the collection behind the wrapper's model (one record per query),
  whether the storage answers, the log of storage operations issued, the console, and
  the synchronizer instances created so far (a reference is an index).
\<close>

record world =
  collection :: "(query \<times> obj) list"
  online :: bool
  io :: "op list"
  console :: "string list"
  syncs :: "sync list"

definition project :: "field list option \<Rightarrow> obj \<Rightarrow> obj" where
  \<comment> \<open>Modelled from the spec: the storage model \<open>findOne(query, projection)\<close> belongs to
      the database driver, which is not part of the sources. A projection to a non-empty
      field list returns those fields only; no projection returns the whole record.\<close>
  "project proj doc =
     (case proj of None \<Rightarrow> doc
      | Some fs \<Rightarrow> if fs = [] then doc else filter (\<lambda>kv. fst kv \<in> set fs) doc)"

definition findOne :: "query \<Rightarrow> field list option \<Rightarrow> world \<Rightarrow> (error + obj option) \<times> world" where
  \<comment> \<open>Modelled from the spec: \<open>findOne(query, projection) -> record|null\<close>, awaited. The
      operation is logged when issued; a storage failure is the rejection
      \<open>StorageError\<close>.\<close>
  "findOne q proj wd =
     (if online wd then Inr (map_option (project proj) (map_of (collection wd) q))
      else Inl StorageError,
      wd\<lparr>io := io wd @ [FindOne q proj]\<rparr>)"

datatype pending = PendingDelete query

fun settle :: "pending \<Rightarrow> world \<Rightarrow> (error + nat) \<times> world" where
  \<comment> \<open>Modelled from the spec: \<open>deleteOne(query) -> result\<close>. Settling the pending delete
      removes the record and reports how many records were deleted, or rejects.\<close>
  "settle (PendingDelete q) wd =
     (if online wd
      then (Inr (if map_of (collection wd) q = None then 0 else 1),
            wd\<lparr>collection := AList.delete q (collection wd)\<rparr>)
      else (Inl StorageError, wd))"

section \<open>DocWrapper\<close>

definition constructor :: "query \<Rightarrow> obj \<Rightarrow> field list \<Rightarrow> wrapper" where
  \<comment> \<open>Modelled from the spec: the base class \<open>DataWrapper\<close>, whose constructor
      \<open>super(obj, allFields)\<close> runs first, is not part of the sources. It initializes the
      observable with the initial partial object and records the complete field list.
      The rest is the constructor of the source.\<close>
  "constructor q ob fs =
     \<lparr>uniqueQuery = q, allFields = fs, loadedFields = Some (keys ob), data = ob,
      emitted = [], synchronizer = None, removed = False, ownProps = []\<rparr>"

definition isLoaded :: "field option \<Rightarrow> wrapper \<Rightarrow> bool" where
  "isLoaded fld w =
     (case loadedFields w of
        None \<Rightarrow> True
      | Some loaded \<Rightarrow>
          (case fld of
             None \<Rightarrow> False
           | Some key \<Rightarrow> if falsy key then False else key \<in> set loaded))"

definition updateLoadedFields :: "field list option \<Rightarrow> wrapper \<Rightarrow> field list \<times> wrapper" where
  "updateLoadedFields flds w =
     (case loadedFields w of
        None \<Rightarrow> ([], w)
      | Some loaded \<Rightarrow>
          (let flds' = (case flds of None \<Rightarrow> allFields w | Some fs \<Rightarrow> fs);
               newFields = difference flds' loaded;
               loaded' = loaded @ newFields
           in (newFields,
               w\<lparr>loadedFields :=
                   (if difference loaded' (allFields w) = [] then None else Some loaded')\<rparr>)))"

definition dataNext :: "obj \<Rightarrow> wrapper \<Rightarrow> wrapper" where
  \<comment> \<open>\<open>this.data.next(v)\<close>: the observable takes the value and emits it\<close>
  "dataNext v w = w\<lparr>data := v, emitted := emitted w @ [v]\<rparr>"

definition cloneData :: "wrapper \<Rightarrow> obj" where
  "cloneData w = cloneDeep (data w)"

definition loadFromObject :: "obj \<Rightarrow> wrapper \<Rightarrow> wrapper" where
  "loadFromObject ob w = (dataNext ob w)\<lparr>loadedFields := None\<rparr>"

text \<open>
  The loop of \<open>mergeData\<close>. With \<open>overwrite\<close> false the source evaluates
  \<open>this.loadedFields.includes(key)\<close>, which throws a \<open>TypeError\<close> when
  \<open>loadedFields\<close> is \<open>undefined\<close>.
\<close>

fun mergeLoop :: "field list option \<Rightarrow> bool \<Rightarrow> obj \<Rightarrow> field list \<Rightarrow> obj \<Rightarrow> error + obj" where
  "mergeLoop lf overwrite ob [] tempData = Inr tempData"
| "mergeLoop lf overwrite ob (key # rest) tempData =
     (if overwrite then mergeLoop lf overwrite ob rest (assign tempData key (getProp ob key))
      else (case lf of
              None \<Rightarrow> Inl TypeError
            | Some loaded \<Rightarrow>
                if key \<in> set loaded then mergeLoop lf overwrite ob rest tempData
                else mergeLoop lf overwrite ob rest (assign tempData key (getProp ob key))))"

definition mergeData :: "obj \<Rightarrow> field list \<Rightarrow> bool \<Rightarrow> wrapper \<Rightarrow> error + (obj \<times> wrapper)" where
  "mergeData ob fieldsToMerge overwrite w =
     (case mergeLoop (loadedFields w) overwrite ob fieldsToMerge (cloneData w) of
        Inl e \<Rightarrow> Inl e
      | Inr tempData \<Rightarrow> Inr (tempData, dataNext tempData w))"

definition getDoc :: "field list option \<Rightarrow> wrapper \<Rightarrow> world \<Rightarrow> (error + obj option) \<times> world" where
  \<comment> \<open>The projection string \<open>fields.join(' ')\<close> is kept as the field list it stands for.\<close>
  "getDoc flds w wd = findOne (uniqueQuery w) flds wd"

definition load ::
  "loadOptions option \<Rightarrow> wrapper \<Rightarrow> world \<Rightarrow> (error + field list option) \<times> wrapper \<times> world" where
  "load options w wd =
     (let flds = extractFieldsToLoad options;
          reload = extractIfReload options;
          (newFields, w1) = updateLoadedFields flds w
      in if newFields = [] \<and> \<not> reload then (Inr (Some []), w1, wd)
         else
           (let loadFields = (if reload then flds else Some newFields);
                (doc, wd1) = getDoc loadFields w1 wd
            in case doc of
                 Inl e \<Rightarrow> (Inl e, w1, wd1)
               | Inr None \<Rightarrow> (Inr None, w1, wd1)
               | Inr (Some d) \<Rightarrow>
                   (case mergeData d (case loadFields of None \<Rightarrow> allFields w1 | Some fs \<Rightarrow> fs)
                           True w1 of
                      Inl e \<Rightarrow> (Inl e, w1, wd1)
                    | Inr (tempData, w2) \<Rightarrow> (Inr loadFields, w2, wd1))))"

datatype resyncResult = This | UndefinedResult

definition resync ::
  "field list option \<Rightarrow> wrapper \<Rightarrow> world \<Rightarrow> (error + resyncResult) \<times> wrapper \<times> world" where
  \<comment> \<open>\<open>fields || this.loadedFields\<close>: an array is truthy, also the empty one;
      \<open>result ? this : undefined\<close>: only \<open>undefined\<close> is falsy among the results of load\<close>
  "resync flds w wd =
     (let fieldsOrLoaded = (case flds of Some fs \<Rightarrow> Some fs | None \<Rightarrow> loadedFields w);
          (result, w', wd') = load (Some (Advanced (map_option Array fieldsOrLoaded) (Some True))) w wd
      in (case result of
            Inl e \<Rightarrow> Inl e
          | Inr None \<Rightarrow> Inr UndefinedResult
          | Inr (Some fs) \<Rightarrow> Inr This,
          w', wd'))"

definition remove :: "wrapper \<Rightarrow> world \<Rightarrow> pending \<times> wrapper \<times> world" where
  \<comment> \<open>The synchronous part of \<open>remove\<close>: the flag is set, the delete is issued, and its
      promise is returned unsettled.\<close>
  "remove w wd =
     (PendingDelete (uniqueQuery w), w\<lparr>removed := True\<rparr>,
      wd\<lparr>io := io wd @ [DeleteOne (uniqueQuery w)]\<rparr>)"

section \<open>Synchronization\<close>

definition newWrapperSynchronizer :: "field list option \<Rightarrow> world \<Rightarrow> nat \<times> world" where
  \<comment> \<open>Modelled from the spec: the class \<open>WrapperSynchronizer\<close> is not part of the
      sources. A new instance keeps the field list it was given as \<open>syncedFields\<close> and
      is open; its reference is its index among the instances.\<close>
  "newWrapperSynchronizer flds wd =
     (length (syncs wd), wd\<lparr>syncs := syncs wd @ [\<lparr>syncedFields = flds, closed = False\<rparr>]\<rparr>)"

definition close :: "nat \<Rightarrow> world \<Rightarrow> world" where
  \<comment> \<open>Modelled from the spec: \<open>close()\<close> releases the instance's resources.\<close>
  "close r wd =
     (if r < length (syncs wd) then wd\<lparr>syncs := (syncs wd)[r := (syncs wd ! r)\<lparr>closed := True\<rparr>]\<rparr>
      else wd)"

definition currentSyncedFields :: "wrapper \<Rightarrow> world \<Rightarrow> field list option" where
  \<comment> \<open>\<open>this.synchronizer?.syncedFields\<close>\<close>
  "currentSyncedFields w wd =
     (case synchronizer w of
        None \<Rightarrow> None
      | Some r \<Rightarrow> if r < length (syncs wd) then syncedFields (syncs wd ! r) else None)"

definition enableSync :: "field list option \<Rightarrow> wrapper \<Rightarrow> world \<Rightarrow> nat option \<times> wrapper \<times> world" where
  "enableSync flds w wd =
     (if sortBy (currentSyncedFields w wd) \<noteq> sortBy flds
      then (let (r, wd') = newWrapperSynchronizer flds wd
            in (Some r, w\<lparr>synchronizer := Some r\<rparr>, wd'))
      else (synchronizer w, w, wd))"

definition disableSync :: "wrapper \<Rightarrow> world \<Rightarrow> wrapper \<times> world" where
  "disableSync w wd =
     (case synchronizer w of
        None \<Rightarrow> (w, wd)
      | Some r \<Rightarrow> (w\<lparr>synchronizer := None\<rparr>, close r wd))"

definition activeSyncs :: "world \<Rightarrow> nat list" where
  \<comment> \<open>the references of the synchronizer instances that were never closed\<close>
  "activeSyncs wd = filter (\<lambda>r. \<not> closed (syncs wd ! r)) [0..<length (syncs wd)]"

section \<open>Property access\<close>

definition accessWarning :: "field \<Rightarrow> string" where
  "accessWarning key =
     ''The wrapper property \"'' @ key @
     ''\" has been accessed before being loaded. Please first check if a property is already loaded with \"Wrapper.load()\".''"

definition dataGetterGenerator :: "field \<Rightarrow> wrapper \<Rightarrow> world \<Rightarrow> val \<times> world" where
  \<comment> \<open>the getter that \<open>dataGetterGenerator(key)\<close> returns, run on the current state\<close>
  "dataGetterGenerator key w wd =
     (if \<not> isLoaded (Some key) w
      then (Undefined, wd\<lparr>console := console wd @ [accessWarning key]\<rparr>)
      else (getProp (data w) key, wd))"

definition setProperty :: "field \<Rightarrow> wrapper \<Rightarrow> world \<Rightarrow> val \<times> world" where
  \<comment> \<open>the getter that the earlier revision of the class installs in \<open>setProperty(key)\<close>;
      once the field is loaded it returns the whole snapshot \<open>this.data.value\<close>\<close>
  "setProperty key w wd =
     (if \<not> isLoaded (Some key) w
      then (Undefined, wd\<lparr>console := console wd @ [accessWarning key]\<rparr>)
      else (Obj (data w), wd))"

definition setCustomProperty :: "field \<Rightarrow> val \<Rightarrow> error" where
  \<comment> \<open>the setter that \<open>setCustomProperty(key, getter)\<close> installs: it throws this error
      whatever value is assigned\<close>
  "setCustomProperty key v =
     Error (''Attempted to set property \"'' @ key @
            ''\". Wrapper properties cannot be changed directly. Use provided functions for that.'')"

text \<open>
  Reading and assigning a property of the wrapper object. The constructor defines an
  accessor property for every key of \<open>allFields\<close> (\<open>this.allFields.forEach(key =>
  this.setProperty(key))\<close> in the earlier revision; the later one inherits it from
  \<open>DataWrapper\<close>, with the getter of \<open>dataGetterGenerator\<close>). Any other key is an
  ordinary property.
\<close>

definition readProperty :: "field \<Rightarrow> wrapper \<Rightarrow> world \<Rightarrow> (error + val) \<times> world" where
  "readProperty key w wd =
     (if key \<in> set (allFields w)
      then (let (v, wd') = dataGetterGenerator key w wd in (Inr v, wd'))
      else (Inr (getProp (ownProps w) key), wd))"

definition assignProperty :: "field \<Rightarrow> val \<Rightarrow> wrapper \<Rightarrow> (error + unit) \<times> wrapper" where
  "assignProperty key v w =
     (if key \<in> set (allFields w) then (Inl (setCustomProperty key v), w)
      else (Inr (), w\<lparr>ownProps := assign (ownProps w) key v\<rparr>))"

definition requestedFields :: "loadOptions option \<Rightarrow> wrapper \<Rightarrow> field list" where
  \<comment> \<open>the fields a call of \<open>load\<close> asks for: those \<open>extractFieldsToLoad\<close> finds in the
      options, and all fields when it finds none (\<open>if (!fields) fields = this.allFields\<close>)\<close>
  "requestedFields options w =
     (case extractFieldsToLoad options of None \<Rightarrow> allFields w | Some fs \<Rightarrow> fs)"

section \<open>Example states\<close>

text \<open>
  A wrapper created with \<open>{name: "alice"}\<close> out of the fields \<open>name\<close>, \<open>age\<close> and
  \<open>role\<close>; a storage that holds its record, and one that does not; the states after a
  successful \<open>load()\<close>; and three calls of \<open>enableSync\<close> in a row.
\<close>

definition exampleWrapper :: wrapper where
  "exampleWrapper = constructor ''guild=1'' [(''name'', Str ''alice'')] [''name'', ''age'', ''role'']"

definition exampleWorld :: world where
  "exampleWorld =
     \<lparr>collection = [(''guild=1'', [(''name'', Str ''bob''), (''age'', Num 30), (''role'', Str ''mod'')])],
      online = True, io = [], console = [], syncs = []\<rparr>"

definition emptyWorld :: world where
  "emptyWorld = \<lparr>collection = [], online = True, io = [], console = [], syncs = []\<rparr>"

definition loadedWrapper :: wrapper where
  "loadedWrapper =
     exampleWrapper\<lparr>loadedFields := None,
       data := [(''name'', Str ''alice''), (''age'', Num 30), (''role'', Str ''mod'')],
       emitted := [[(''name'', Str ''alice''), (''age'', Num 30), (''role'', Str ''mod'')]]\<rparr>"

definition fetchedWorld :: world where
  "fetchedWorld = exampleWorld\<lparr>io := [FindOne ''guild=1'' (Some [''age'', ''role''])]\<rparr>"

definition syncOnce :: "nat option \<times> wrapper \<times> world" where
  "syncOnce = enableSync (Some [''age'']) exampleWrapper exampleWorld"

definition syncTwice :: "nat option \<times> wrapper \<times> world" where
  "syncTwice = enableSync (Some [''age'']) (fst (snd syncOnce)) (snd (snd syncOnce))"

definition syncReplaced :: "nat option \<times> wrapper \<times> world" where
  "syncReplaced = enableSync (Some [''age'', ''role'']) (fst (snd syncTwice)) (snd (snd syncTwice))"

section \<open>Auxiliary facts\<close>

lemmas example_defs = exampleWrapper_def exampleWorld_def emptyWorld_def constructor_def keys_def

lemma getProp_assign: "getProp (assign ob k v) k' = (if k' = k then v else getProp ob k')"
  by (simp add: getProp_def assign_def update_conv)

lemma set_difference: "set (difference xs ys) = set xs - set ys"
  by (auto simp: difference_def)

lemma difference_Nil_iff: "difference xs ys = [] \<longleftrightarrow> set xs \<subseteq> set ys"
  by (auto simp: difference_def filter_empty_conv)

lemma map_of_project:
  "k \<in> set fs \<Longrightarrow> map_of (filter (\<lambda>kv. fst kv \<in> set fs) doc) k = map_of doc k"
  by (induction doc) auto

lemma getProp_project: "k \<in> set fs \<Longrightarrow> getProp (project (Some fs) doc) k = getProp doc k"
  by (simp add: getProp_def project_def map_of_project)

lemma mergeLoop_overwrite:
  "\<exists>t. mergeLoop lf True ob ks tmp = Inr t \<and>
       (\<forall>k. getProp t k = (if k \<in> set ks then getProp ob k else getProp tmp k))"
proof (induction ks arbitrary: tmp)
  case Nil
  show ?case by simp
next
  case (Cons a ks)
  from Cons.IH[of "assign tmp a (getProp ob a)"]
  obtain t where t: "mergeLoop lf True ob ks (assign tmp a (getProp ob a)) = Inr t"
    and g: "\<And>k. getProp t k =
              (if k \<in> set ks then getProp ob k else getProp (assign tmp a (getProp ob a)) k)"
    by blast
  have "\<forall>k. getProp t k = (if k \<in> set (a # ks) then getProp ob k else getProp tmp k)"
    by (simp add: g getProp_assign)
  with t show ?case by simp
qed

lemma updateLoadedFields_snd:
  "snd (updateLoadedFields f w) = w\<lparr>loadedFields := loadedFields (snd (updateLoadedFields f w))\<rparr>"
  by (simp add: updateLoadedFields_def Let_def split: option.splits)

lemma updateLoadedFields_keeps:
  "allFields (snd (updateLoadedFields f w)) = allFields w"
  "uniqueQuery (snd (updateLoadedFields f w)) = uniqueQuery w"
  "data (snd (updateLoadedFields f w)) = data w"
  by (subst updateLoadedFields_snd, simp)+

lemma updateLoadedFields_None: "loadedFields w = None \<Longrightarrow> updateLoadedFields f w = ([], w)"
  by (simp add: updateLoadedFields_def)

lemma updateLoadedFields_fst:
  "loadedFields w = Some loaded \<Longrightarrow>
   fst (updateLoadedFields f w) = difference (case f of None \<Rightarrow> allFields w | Some fs \<Rightarrow> fs) loaded"
  by (simp add: updateLoadedFields_def Let_def)

lemma updateLoadedFields_covers:
  "loadedFields w = Some loaded \<Longrightarrow> loadedFields (snd (updateLoadedFields f w)) = Some loaded' \<Longrightarrow>
   set loaded \<subseteq> set loaded' \<and> set (case f of None \<Rightarrow> allFields w | Some fs \<Rightarrow> fs) \<subseteq> set loaded'
   \<and> difference loaded' (allFields w) \<noteq> []"
  by (auto simp: updateLoadedFields_def Let_def set_difference split: if_splits option.splits)

lemma updateLoadedFields_noop:
  assumes "loadedFields w = Some loaded"
    and "set (case f of None \<Rightarrow> allFields w | Some fs \<Rightarrow> fs) \<subseteq> set loaded"
    and "difference loaded (allFields w) \<noteq> []"
  shows "updateLoadedFields f w = ([], w)"
proof -
  have d: "difference (case f of None \<Rightarrow> allFields w | Some fs \<Rightarrow> fs) loaded = []"
    using assms(2) by (simp add: difference_Nil_iff)
  have "w\<lparr>loadedFields := Some loaded\<rparr> = w" using assms(1) by simp
  then show ?thesis
    using assms(1,3) d by (simp add: updateLoadedFields_def Let_def)
qed

lemma updateLoadedFields_after:
  assumes "loadedFields w1 = loadedFields (snd (updateLoadedFields f w))"
    and "allFields w1 = allFields w"
  shows "updateLoadedFields f w1 = ([], w1)"
proof (cases "loadedFields w1")
  case None
  then show ?thesis by (simp add: updateLoadedFields_None)
next
  case (Some loaded')
  with assms(1) have after: "loadedFields (snd (updateLoadedFields f w)) = Some loaded'" by simp
  then obtain loaded where before: "loadedFields w = Some loaded"
    by (cases "loadedFields w") (simp_all add: updateLoadedFields_None)
  from updateLoadedFields_covers[OF before after]
  have "set (case f of None \<Rightarrow> allFields w | Some fs \<Rightarrow> fs) \<subseteq> set loaded'"
    and "difference loaded' (allFields w) \<noteq> []" by simp_all
  then show ?thesis
    by (intro updateLoadedFields_noop[OF Some]; cases f; simp add: assms(2))
qed

lemma mergeData_overwrite:
  "\<exists>t. mergeData d ks True w = Inr (t, dataNext t w) \<and>
       (\<forall>k. getProp t k = (if k \<in> set ks then getProp d k else getProp (data w) k))"
proof -
  from mergeLoop_overwrite[of "loadedFields w" d ks "cloneData w"]
  obtain t where "mergeLoop (loadedFields w) True d ks (cloneData w) = Inr t"
    and "\<forall>k. getProp t k = (if k \<in> set ks then getProp d k else getProp (cloneData w) k)"
    by blast
  then show ?thesis by (auto simp: mergeData_def cloneData_def cloneDeep_def)
qed

lemma load_fast:
  assumes "\<not> extractIfReload options"
    and "fst (updateLoadedFields (extractFieldsToLoad options) w) = []"
  shows "load options w wd = (Inr (Some []), snd (updateLoadedFields (extractFieldsToLoad options) w), wd)"
proof -
  obtain nf wu where u: "updateLoadedFields (extractFieldsToLoad options) w = (nf, wu)"
    by (cases "updateLoadedFields (extractFieldsToLoad options) w")
  with assms show ?thesis by (simp add: load_def)
qed

lemma load_wrapper:
  assumes "load options w wd = (r, w1, wd1)"
  shows "loadedFields w1 = loadedFields (snd (updateLoadedFields (extractFieldsToLoad options) w))
         \<and> allFields w1 = allFields w \<and> uniqueQuery w1 = uniqueQuery w"
proof -
  obtain nf wu where u: "updateLoadedFields (extractFieldsToLoad options) w = (nf, wu)"
    by (cases "updateLoadedFields (extractFieldsToLoad options) w")
  have k: "allFields wu = allFields w" "uniqueQuery wu = uniqueQuery w"
    using updateLoadedFields_keeps[of "extractFieldsToLoad options" w] u by simp_all
  let ?ks = "\<lambda>lf. case lf of None \<Rightarrow> allFields wu | Some fs \<Rightarrow> fs"
  have m: "\<And>d lf. \<exists>t. mergeData d (?ks lf) True wu = Inr (t, dataNext t wu)"
    using mergeData_overwrite by blast
  have "w1 = wu \<or> (\<exists>t. w1 = dataNext t wu)"
  proof (cases "nf = [] \<and> \<not> extractIfReload options")
    case True
    with assms u show ?thesis by (simp add: load_def)
  next
    case False
    let ?lf = "if extractIfReload options then extractFieldsToLoad options else Some nf"
    obtain doc wdx where g: "getDoc ?lf wu wd = (doc, wdx)" by (cases "getDoc ?lf wu wd")
    show ?thesis
    proof (cases doc)
      case (Inl e)
      with assms u False g show ?thesis by (auto simp: load_def Let_def)
    next
      case (Inr dopt)
      show ?thesis
      proof (cases dopt)
        case None
        with assms u False g Inr show ?thesis by (auto simp: load_def Let_def)
      next
        case (Some d)
        from m[of d ?lf] obtain t where "mergeData d (?ks ?lf) True wu = Inr (t, dataNext t wu)" ..
        with assms u False g Inr Some show ?thesis by (auto simp: load_def Let_def)
      qed
    qed
  qed
  then show ?thesis using k u by (auto simp: dataNext_def)
qed

lemma load_first_io:
  assumes "\<not> extractIfReload options"
    and "loadedFields w = Some loaded"
    and "\<not> set (requestedFields options w) \<subseteq> set loaded"
  shows "io (snd (snd (load options w wd))) =
         io wd @ [FindOne (uniqueQuery w) (Some (difference (requestedFields options w) loaded))]"
proof -
  let ?f = "extractFieldsToLoad options"
  have nf: "fst (updateLoadedFields ?f w) = difference (requestedFields options w) loaded"
    using assms(2) by (simp add: updateLoadedFields_fst requestedFields_def)
  have ne: "difference (requestedFields options w) loaded \<noteq> []"
    using assms(3) by (simp add: difference_Nil_iff)
  obtain nfs wu where u: "updateLoadedFields ?f w = (nfs, wu)" by (cases "updateLoadedFields ?f w")
  with nf have nfs: "nfs = difference (requestedFields options w) loaded" by simp
  have q: "uniqueQuery wu = uniqueQuery w"
    using updateLoadedFields_keeps(2)[of ?f w] u by simp
  have m: "\<And>d. \<exists>t. mergeData d nfs True wu = Inr (t, dataNext t wu)"
    using mergeData_overwrite by blast
  show ?thesis
  proof (cases "online wd")
    case False
    then show ?thesis
      using assms(1) u ne nfs q by (simp add: load_def Let_def getDoc_def findOne_def)
  next
    case True
    show ?thesis
    proof (cases "map_of (collection wd) (uniqueQuery w)")
      case None
      then show ?thesis
        using True assms(1) u ne nfs q by (simp add: load_def Let_def getDoc_def findOne_def)
    next
      case (Some rec)
      from m[of "project (Some nfs) rec"] obtain t
        where "mergeData (project (Some nfs) rec) nfs True wu = Inr (t, dataNext t wu)" ..
      then show ?thesis
        using Some True assms(1) u ne nfs q by (simp add: load_def Let_def getDoc_def findOne_def)
    qed
  qed
qed

lemma load_fetch_found:
  assumes "extractIfReload options \<or> fst (updateLoadedFields (extractFieldsToLoad options) w) \<noteq> []"
    and "online wd" and "map_of (collection wd) (uniqueQuery w) = Some rec"
    and "lf = (if extractIfReload options then extractFieldsToLoad options
               else Some (fst (updateLoadedFields (extractFieldsToLoad options) w)))"
    and "ks = (case lf of None \<Rightarrow> allFields w | Some fs \<Rightarrow> fs)"
  shows "\<exists>t. load options w wd =
           (Inr lf, dataNext t (snd (updateLoadedFields (extractFieldsToLoad options) w)),
            wd\<lparr>io := io wd @ [FindOne (uniqueQuery w) lf]\<rparr>) \<and>
           (\<forall>k. getProp t k = (if k \<in> set ks then getProp (project lf rec) k else getProp (data w) k))"
proof -
  obtain nf wu where u: "updateLoadedFields (extractFieldsToLoad options) w = (nf, wu)"
    by (cases "updateLoadedFields (extractFieldsToLoad options) w")
  have k: "allFields wu = allFields w" "uniqueQuery wu = uniqueQuery w" "data wu = data w"
    using updateLoadedFields_keeps[of "extractFieldsToLoad options" w] u by simp_all
  have ks: "ks = (case lf of None \<Rightarrow> allFields wu | Some fs \<Rightarrow> fs)"
    using assms(5) k(1) by (cases lf) simp_all
  from mergeData_overwrite[of "project lf rec" ks wu] obtain t
    where m: "mergeData (project lf rec) ks True wu = Inr (t, dataNext t wu)"
      and g: "\<forall>k. getProp t k = (if k \<in> set ks then getProp (project lf rec) k else getProp (data wu) k)"
    by blast
  have "load options w wd = (Inr lf, dataNext t wu, wd\<lparr>io := io wd @ [FindOne (uniqueQuery w) lf]\<rparr>)"
    using assms(1-4) u k m[unfolded ks]
    by (auto simp: load_def Let_def getDoc_def findOne_def)
  with g u k show ?thesis by auto
qed

lemma load_fetch_not_found:
  assumes "extractIfReload options \<or> fst (updateLoadedFields (extractFieldsToLoad options) w) \<noteq> []"
    and "online wd" and "map_of (collection wd) (uniqueQuery w) = None"
    and "lf = (if extractIfReload options then extractFieldsToLoad options
               else Some (fst (updateLoadedFields (extractFieldsToLoad options) w)))"
  shows "load options w wd =
           (Inr None, snd (updateLoadedFields (extractFieldsToLoad options) w),
            wd\<lparr>io := io wd @ [FindOne (uniqueQuery w) lf]\<rparr>)"
proof -
  obtain nf wu where u: "updateLoadedFields (extractFieldsToLoad options) w = (nf, wu)"
    by (cases "updateLoadedFields (extractFieldsToLoad options) w")
  have k: "uniqueQuery wu = uniqueQuery w"
    using updateLoadedFields_keeps(2)[of "extractFieldsToLoad options" w] u by simp
  show ?thesis
    using assms u k by (auto simp: load_def Let_def getDoc_def findOne_def)
qed

lemma load_fetch_offline:
  assumes "extractIfReload options \<or> fst (updateLoadedFields (extractFieldsToLoad options) w) \<noteq> []"
    and "\<not> online wd"
    and "lf = (if extractIfReload options then extractFieldsToLoad options
               else Some (fst (updateLoadedFields (extractFieldsToLoad options) w)))"
  shows "load options w wd =
           (Inl StorageError, snd (updateLoadedFields (extractFieldsToLoad options) w),
            wd\<lparr>io := io wd @ [FindOne (uniqueQuery w) lf]\<rparr>)"
proof -
  obtain nf wu where u: "updateLoadedFields (extractFieldsToLoad options) w = (nf, wu)"
    by (cases "updateLoadedFields (extractFieldsToLoad options) w")
  have k: "uniqueQuery wu = uniqueQuery w"
    using updateLoadedFields_keeps(2)[of "extractFieldsToLoad options" w] u by simp
  show ?thesis
    using assms u k by (auto simp: load_def Let_def getDoc_def findOne_def)
qed

section \<open>The claims\<close>

subsection \<open>C1: the fully-loaded sentinel\<close>

text \<open>
  Claim C1 says that \<open>isLoaded()\<close> without a field is true exactly when every field of
  \<open>allFields\<close> is loaded, and that \<open>updateLoadedFields\<close> never sets the sentinel while a
  field is still unloaded. The test in \<open>updateLoadedFields\<close> is
  \<open>_.difference(this.loadedFields, this.allFields)\<close>, which is empty as soon as the loaded
  fields are among \<open>allFields\<close>. On the example wrapper, which has loaded \<open>name\<close> only,
  marking \<open>age\<close> as loaded sets the sentinel although \<open>role\<close> was never loaded; the
  same happens through \<open>load('age')\<close>, after which the snapshot has no \<open>role\<close>.
\<close>

theorem updateLoadedFields_collapses_early:
  "loadedFields exampleWrapper = Some [''name''] \<and>
   fst (updateLoadedFields (Some [''age'']) exampleWrapper) = [''age''] \<and>
   loadedFields (snd (updateLoadedFields (Some [''age'']) exampleWrapper)) = None \<and>
   isLoaded None (snd (updateLoadedFields (Some [''age'']) exampleWrapper)) \<and>
   ''role'' \<in> set (allFields exampleWrapper) \<and>
   ''role'' \<notin> set ([''name''] @ [''age'']) \<and>
   fst (load (Some (Plain (Single ''age''))) exampleWrapper exampleWorld) = Inr (Some [''age'']) \<and>
   isLoaded None (fst (snd (load (Some (Plain (Single ''age''))) exampleWrapper exampleWorld))) \<and>
   data (fst (snd (load (Some (Plain (Single ''age''))) exampleWrapper exampleWorld))) =
     [(''name'', Str ''alice''), (''age'', Num 30)]"
  by code_simp

subsection \<open>C2: load when no record is found\<close>

text \<open>
  Claim C2 says that a \<open>load\<close> whose fetch finds no record returns \<open>undefined\<close> and
  leaves \<open>loadedFields\<close> as it was, so that a later \<open>load\<close> asks the storage again.
  \<open>load\<close> calls \<open>updateLoadedFields\<close> before it fetches and nothing restores the
  earlier value. On the example wrapper with an empty storage, \<open>load()\<close> fetches
  \<open>age\<close> and \<open>role\<close>, finds nothing and returns \<open>undefined\<close>; afterwards
  \<open>loadedFields\<close> is the sentinel, \<open>age\<close> is reported loaded although it was never
  fetched, its getter yields \<open>undefined\<close> without a warning, and once the record is
  back in the storage a further \<open>load()\<close> returns the empty list without any fetch.
\<close>

theorem load_not_found_marks_fields_loaded:
  "map_of (collection emptyWorld) (uniqueQuery exampleWrapper) = None \<and>
   fst (load None exampleWrapper emptyWorld) = Inr None \<and>
   io (snd (snd (load None exampleWrapper emptyWorld))) =
     [FindOne ''guild=1'' (Some [''age'', ''role''])] \<and>
   data (fst (snd (load None exampleWrapper emptyWorld))) = [(''name'', Str ''alice'')] \<and>
   loadedFields exampleWrapper = Some [''name''] \<and>
   loadedFields (fst (snd (load None exampleWrapper emptyWorld))) = None \<and>
   \<not> isLoaded (Some ''age'') exampleWrapper \<and>
   isLoaded (Some ''age'') (fst (snd (load None exampleWrapper emptyWorld))) \<and>
   dataGetterGenerator ''age'' (fst (snd (load None exampleWrapper emptyWorld))) exampleWorld =
     (Undefined, exampleWorld) \<and>
   load None (fst (snd (load None exampleWrapper emptyWorld))) exampleWorld =
     (Inr (Some []), fst (snd (load None exampleWrapper emptyWorld)), exampleWorld)"
  by code_simp

subsection \<open>C3: the cached path of load\<close>

text \<open>
  Claim C3: when \<open>reload\<close> is not set and every requested field is already loaded (the
  sentinel counts as all fields loaded), \<open>load\<close> returns the empty list and leaves the
  environment untouched, so no storage operation is issued. When some requested field is
  not loaded, the call issues one fetch for the missing fields. Whatever the first call
  did, a second call with the same options returns the empty list and changes neither
  the wrapper nor the environment.
\<close>

theorem load_cached_no_storage_access:
  assumes "\<not> extractIfReload options"
    and "load options w wd = (r1, w1, wd1)"
  shows "((case loadedFields w of None \<Rightarrow> True
           | Some loaded \<Rightarrow> set (requestedFields options w) \<subseteq> set loaded)
          \<longrightarrow> r1 = Inr (Some []) \<and> wd1 = wd) \<and>
         (\<forall>loaded. loadedFields w = Some loaded \<and> \<not> set (requestedFields options w) \<subseteq> set loaded
          \<longrightarrow> io wd1 = io wd @
                [FindOne (uniqueQuery w) (Some (difference (requestedFields options w) loaded))]) \<and>
         load options w1 wd1 = (Inr (Some []), w1, wd1)"
proof (intro conjI impI allI)
  assume a: "case loadedFields w of None \<Rightarrow> True
             | Some loaded \<Rightarrow> set (requestedFields options w) \<subseteq> set loaded"
  have "fst (updateLoadedFields (extractFieldsToLoad options) w) = []"
  proof (cases "loadedFields w")
    case None
    then show ?thesis by (simp add: updateLoadedFields_None)
  next
    case (Some loaded)
    with a show ?thesis
      by (simp add: updateLoadedFields_fst requestedFields_def difference_Nil_iff)
  qed
  from load_fast[OF assms(1) this, of wd] assms(2)
  show "r1 = Inr (Some [])" and "wd1 = wd" by simp_all
next
  fix loaded
  assume "loadedFields w = Some loaded \<and> \<not> set (requestedFields options w) \<subseteq> set loaded"
  then show "io wd1 = io wd @
      [FindOne (uniqueQuery w) (Some (difference (requestedFields options w) loaded))]"
    using load_first_io[OF assms(1), of w loaded wd] assms(2) by simp
next
  from load_wrapper[OF assms(2)]
  have "updateLoadedFields (extractFieldsToLoad options) w1 = ([], w1)"
    by (intro updateLoadedFields_after) simp_all
  then show "load options w1 wd1 = (Inr (Some []), w1, wd1)"
    using load_fast[OF assms(1), of w1 wd1] by simp
qed

theorem load_cached_no_storage_access_witness:
  "\<not> extractIfReload None \<and>
   load None exampleWrapper exampleWorld = (Inr (Some [''age'', ''role'']), loadedWrapper, fetchedWorld) \<and>
   loadedFields exampleWrapper = Some [''name''] \<and>
   \<not> set (requestedFields None exampleWrapper) \<subseteq> set [''name''] \<and>
   io fetchedWorld = io exampleWorld @ [FindOne ''guild=1'' (Some [''age'', ''role''])] \<and>
   load None loadedWrapper fetchedWorld = (Inr (Some []), loadedWrapper, fetchedWorld)"
proof -
  have r: "\<not> extractIfReload None" by simp
  have ev: "load None exampleWrapper exampleWorld =
              (Inr (Some [''age'', ''role'']), loadedWrapper, fetchedWorld)"
    by code_simp
  have l: "loadedFields exampleWrapper = Some [''name'']" by (simp add: example_defs)
  have n: "\<not> set (requestedFields None exampleWrapper) \<subseteq> set [''name'']"
    by (simp add: requestedFields_def example_defs)
  have i: "io fetchedWorld = io exampleWorld @ [FindOne ''guild=1'' (Some [''age'', ''role''])]"
    by (simp add: fetchedWorld_def exampleWorld_def)
  from load_cached_no_storage_access[OF r ev]
  have s: "load None loadedWrapper fetchedWorld = (Inr (Some []), loadedWrapper, fetchedWorld)"
    by simp
  from r ev l n i s show ?thesis by simp
qed

subsection \<open>C4: reloading a field\<close>

text \<open>
  Claim C4: \<open>load({fields: [a], reload: true})\<close> always issues a fetch projected to
  \<open>a\<close>, whether or not \<open>a\<close> is loaded, and when the storage answers with a record the
  call returns \<open>[a]\<close> and the snapshot's value of \<open>a\<close> is the record's, whatever it was
  before.
\<close>

theorem reload_fetches_and_overwrites:
  "io (snd (snd (load (Some (Advanced (Some (Array [a])) (Some True))) w wd))) =
     io wd @ [FindOne (uniqueQuery w) (Some [a])] \<and>
   (online wd \<and> map_of (collection wd) (uniqueQuery w) = Some rec \<longrightarrow>
      fst (load (Some (Advanced (Some (Array [a])) (Some True))) w wd) = Inr (Some [a]) \<and>
      getProp (data (fst (snd (load (Some (Advanced (Some (Array [a])) (Some True))) w wd)))) a =
        getProp rec a)"
proof -
  let ?o = "Some (Advanced (Some (Array [a])) (Some True))"
  have r: "extractIfReload ?o \<or> fst (updateLoadedFields (extractFieldsToLoad ?o) w) \<noteq> []"
    by simp
  have lf: "Some [a] = (if extractIfReload ?o then extractFieldsToLoad ?o
               else Some (fst (updateLoadedFields (extractFieldsToLoad ?o) w)))" by simp
  show ?thesis
  proof (cases "online wd")
    case False
    from load_fetch_offline[OF r False lf] show ?thesis using False by simp
  next
    case True
    show ?thesis
    proof (cases "map_of (collection wd) (uniqueQuery w)")
      case None
      from load_fetch_not_found[OF r True None lf] show ?thesis using None by simp
    next
      case (Some r')
      from load_fetch_found[OF r True Some lf, of "[a]"] obtain t
        where "load ?o w wd = (Inr (Some [a]), dataNext t (snd (updateLoadedFields (extractFieldsToLoad ?o) w)),
            wd\<lparr>io := io wd @ [FindOne (uniqueQuery w) (Some [a])]\<rparr>)"
          and "\<forall>k. getProp t k = (if k \<in> set [a] then getProp (project (Some [a]) r') k else getProp (data w) k)"
        by auto
      then show ?thesis using Some by (simp add: dataNext_def getProp_project)
    qed
  qed
qed

theorem reload_fetches_and_overwrites_witness:
  "isLoaded (Some ''name'') exampleWrapper \<and>
   getProp (data exampleWrapper) ''name'' = Str ''alice'' \<and>
   online exampleWorld \<and>
   map_of (collection exampleWorld) (uniqueQuery exampleWrapper) =
     Some [(''name'', Str ''bob''), (''age'', Num 30), (''role'', Str ''mod'')] \<and>
   io (snd (snd (load (Some (Advanced (Some (Array [''name''])) (Some True))) exampleWrapper exampleWorld))) =
     [FindOne ''guild=1'' (Some [''name''])] \<and>
   fst (load (Some (Advanced (Some (Array [''name''])) (Some True))) exampleWrapper exampleWorld) =
     Inr (Some [''name'']) \<and>
   getProp (data (fst (snd (load (Some (Advanced (Some (Array [''name''])) (Some True)))
                              exampleWrapper exampleWorld)))) ''name'' = Str ''bob''"
proof -
  have h: "online exampleWorld"
    "map_of (collection exampleWorld) (uniqueQuery exampleWrapper) =
       Some [(''name'', Str ''bob''), (''age'', Num 30), (''role'', Str ''mod'')]"
    by (simp_all add: example_defs)
  have p: "isLoaded (Some ''name'') exampleWrapper" "getProp (data exampleWrapper) ''name'' = Str ''alice''"
    by (simp_all add: isLoaded_def falsy_def getProp_def example_defs)
  from reload_fetches_and_overwrites[of "''name''" exampleWrapper exampleWorld
      "[(''name'', Str ''bob''), (''age'', Num 30), (''role'', Str ''mod'')]"] h p
  show ?thesis by (simp add: getProp_def example_defs)
qed

subsection \<open>C5: loadFromObject\<close>

text \<open>
  Claim C5: after \<open>loadFromObject(obj)\<close> the wrapper is fully loaded, the snapshot is
  \<open>obj\<close>, so every field of the snapshot is the field of \<open>obj\<close> whatever was loaded
  before, and reading any field through its getter yields the value in \<open>obj\<close> without
  a warning.
\<close>

theorem loadFromObject_fully_loaded:
  "isLoaded None (loadFromObject ob w) \<and>
   data (loadFromObject ob w) = ob \<and>
   (\<forall>key. getProp (data (loadFromObject ob w)) key = getProp ob key) \<and>
   (\<forall>key wd. dataGetterGenerator key (loadFromObject ob w) wd = (getProp ob key, wd))"
  by (simp add: loadFromObject_def dataNext_def isLoaded_def dataGetterGenerator_def)

subsection \<open>C6: enableSync\<close>

text \<open>
  Claim C6 says that \<open>enableSync\<close> returns the existing synchronizer for an equal field
  set and, for a different one, closes the old synchronizer and replaces it, so that at
  most one is active. \<open>enableSync\<close> replaces the reference and never calls \<open>close\<close>:
  after \<open>enableSync(["age"])\<close> twice (the same instance both times) and
  \<open>enableSync(["age", "role"])\<close>, the first instance is still open beside the second,
  while \<open>disableSync\<close> does close the instance it detaches.
\<close>

theorem enableSync_leaves_old_open:
  "fst syncOnce = Some 0 \<and>
   fst syncTwice = Some 0 \<and>
   syncs (snd (snd syncTwice)) = [\<lparr>syncedFields = Some [''age''], closed = False\<rparr>] \<and>
   fst syncReplaced = Some 1 \<and>
   synchronizer (fst (snd syncReplaced)) = Some 1 \<and>
   syncs (snd (snd syncReplaced)) =
     [\<lparr>syncedFields = Some [''age''], closed = False\<rparr>,
      \<lparr>syncedFields = Some [''age'', ''role''], closed = False\<rparr>] \<and>
   activeSyncs (snd (snd syncReplaced)) = [0, 1] \<and>
   syncs (snd (disableSync (fst (snd syncTwice)) (snd (snd syncTwice)))) =
     [\<lparr>syncedFields = Some [''age''], closed = True\<rparr>]"
  by code_simp

subsection \<open>C7: resync\<close>

text \<open>
  Claim C7 says that \<open>resync\<close> returns the wrapper whenever the record was found.
  \<open>resync\<close> tests the result of \<open>load\<close> for truthiness, and \<open>load\<close> returns the
  requested field list, which is \<open>undefined\<close> for a reload of the whole document. On a
  fully loaded wrapper, \<open>resync()\<close> fetches the record, merges it into the snapshot and
  returns \<open>undefined\<close>; with an explicit field list it returns the wrapper.
\<close>

theorem resync_full_reload_returns_undefined:
  "loadedFields loadedWrapper = None \<and>
   online exampleWorld \<and>
   map_of (collection exampleWorld) (uniqueQuery loadedWrapper) =
     Some [(''name'', Str ''bob''), (''age'', Num 30), (''role'', Str ''mod'')] \<and>
   fst (resync None loadedWrapper exampleWorld) = Inr UndefinedResult \<and>
   io (snd (snd (resync None loadedWrapper exampleWorld))) = [FindOne ''guild=1'' None] \<and>
   data (fst (snd (resync None loadedWrapper exampleWorld))) =
     [(''name'', Str ''bob''), (''age'', Num 30), (''role'', Str ''mod'')] \<and>
   fst (resync (Some [''name'']) loadedWrapper exampleWorld) = Inr This"
  by code_simp

subsection \<open>C8: remove\<close>

text \<open>
  Claim C8: \<open>remove()\<close> returns the pending delete for the wrapper's unique query, with
  the \<open>removed\<close> flag already set and nothing else changed in the wrapper, having issued
  exactly one delete and not yet touched the collection; settling the returned delete at
  any later time yields the delete's own result or its error.
\<close>

theorem remove_sets_flag_and_issues_delete:
  "fst (remove w wd) = PendingDelete (uniqueQuery w) \<and>
   fst (snd (remove w wd)) = w\<lparr>removed := True\<rparr> \<and>
   removed (fst (snd (remove w wd))) \<and>
   io (snd (snd (remove w wd))) = io wd @ [DeleteOne (uniqueQuery w)] \<and>
   collection (snd (snd (remove w wd))) = collection wd \<and>
   length (filter (\<lambda>x. x = DeleteOne (uniqueQuery w)) (io (snd (snd (remove w wd))))) =
     Suc (length (filter (\<lambda>x. x = DeleteOne (uniqueQuery w)) (io wd))) \<and>
   (\<forall>later. fst (settle (fst (remove w wd)) later) =
      (if online later
       then Inr (if map_of (collection later) (uniqueQuery w) = None then 0 else 1)
       else Inl StorageError))"
  by (simp add: remove_def)

subsection \<open>C9: reading a field that is not loaded\<close>

text \<open>
  Claim C9: when the sentinel is not set and a field is not among the loaded fields, the
  getter of either revision of the class logs the warning and yields \<open>undefined\<close>, and
  reading the property of a wrapped field returns \<open>undefined\<close> normally, with the
  warning on the console.
\<close>

theorem unloaded_field_read_warns:
  assumes "loadedFields w = Some loaded" and "key \<notin> set loaded"
  shows "dataGetterGenerator key w wd = (Undefined, wd\<lparr>console := console wd @ [accessWarning key]\<rparr>) \<and>
         setProperty key w wd = (Undefined, wd\<lparr>console := console wd @ [accessWarning key]\<rparr>) \<and>
         (key \<in> set (allFields w) \<longrightarrow>
            readProperty key w wd = (Inr Undefined, wd\<lparr>console := console wd @ [accessWarning key]\<rparr>))"
  using assms by (simp add: dataGetterGenerator_def setProperty_def readProperty_def isLoaded_def)

theorem unloaded_field_read_warns_witness:
  "loadedFields exampleWrapper = Some [''name''] \<and> ''age'' \<notin> set [''name''] \<and>
   ''age'' \<in> set (allFields exampleWrapper) \<and>
   dataGetterGenerator ''age'' exampleWrapper exampleWorld =
     (Undefined, exampleWorld\<lparr>console := [accessWarning ''age'']\<rparr>) \<and>
   setProperty ''age'' exampleWrapper exampleWorld =
     (Undefined, exampleWorld\<lparr>console := [accessWarning ''age'']\<rparr>) \<and>
   readProperty ''age'' exampleWrapper exampleWorld =
     (Inr Undefined, exampleWorld\<lparr>console := [accessWarning ''age'']\<rparr>)"
proof -
  have h: "loadedFields exampleWrapper = Some [''name'']" "''age'' \<notin> set [''name'']"
    "''age'' \<in> set (allFields exampleWrapper)" "console exampleWorld = []"
    by (simp_all add: example_defs)
  from unloaded_field_read_warns[OF h(1,2), of exampleWorld] h show ?thesis by simp
qed

subsection \<open>C10: assigning a wrapped field\<close>

text \<open>
  Claim C10: assigning any value to the property of a wrapped field, loaded or not,
  throws the error of the setter and leaves the wrapper, in particular its snapshot and
  its loaded fields, unchanged.
\<close>

theorem assignment_throws:
  assumes "key \<in> set (allFields w)"
  shows "assignProperty key v w = (Inl (setCustomProperty key v), w) \<and>
         (\<exists>msg. setCustomProperty key v = Error msg) \<and>
         data (snd (assignProperty key v w)) = data w \<and>
         loadedFields (snd (assignProperty key v w)) = loadedFields w"
  using assms by (simp add: assignProperty_def setCustomProperty_def)

theorem assignment_throws_witness:
  "''name'' \<in> set (allFields exampleWrapper) \<and>
   assignProperty ''name'' (Str ''eve'') exampleWrapper =
     (Inl (Error ''Attempted to set property \"name\". Wrapper properties cannot be changed directly. Use provided functions for that.''),
      exampleWrapper) \<and>
   data (snd (assignProperty ''name'' (Str ''eve'') exampleWrapper)) = [(''name'', Str ''alice'')] \<and>
   loadedFields (snd (assignProperty ''name'' (Str ''eve'') exampleWrapper)) = Some [''name'']"
proof -
  have h: "''name'' \<in> set (allFields exampleWrapper)" by (simp add: example_defs)
  from assignment_throws[OF h, of "Str ''eve''"] h show ?thesis
    by (simp add: setCustomProperty_def example_defs)
qed

end
